theory Spec2Isabelle
  imports Main
begin

section \<open>Python values and dictionaries\<close>

text \<open>
  The pipeline compiler of \<^verbatim>\<open>google/datalab/contrib/bigquery/commands/_bigquery.py\<close>
  works on parsed YAML/JSON documents: nested dictionaries, lists and scalars. A document
  value is a \<open>pyval\<close>. A dictionary is an association list in insertion order; looking a
  key up takes the first entry of that key and storing a key replaces the entry in place
  or appends it, which is what a Python \<^verbatim>\<open>dict\<close> does.
\<close>

datatype pyval =
    PNone
  | PBool bool
  | PInt int
  | PStr string
  | PList "pyval list"
  | PDict "(string \<times> pyval) list"

type_synonym dict = "(string \<times> pyval) list"

datatype error =
    Exception string    \<comment> \<open>\<^verbatim>\<open>raise Exception(msg)\<close>, the configuration errors of this file\<close>
  | KeyError string     \<comment> \<open>\<^verbatim>\<open>d[k]\<close> with \<open>k\<close> missing\<close>
  | TypeError           \<comment> \<open>an operation on a value of the wrong type, such as \<^verbatim>\<open>'path' in None\<close>\<close>
  | ValidationError     \<comment> \<open>raised by \<^verbatim>\<open>jsonschema.validate\<close>\<close>
  | RenderError         \<comment> \<open>a failure inside the external \<^verbatim>\<open>Pipeline.py\<close> property\<close>

fun dict_get :: "('k \<times> 'v) list \<Rightarrow> 'k \<Rightarrow> 'v option" where
  "dict_get [] k = None"
| "dict_get ((k', v) # d) k = (if k' = k then Some v else dict_get d k)"

fun dict_set :: "('k \<times> 'v) list \<Rightarrow> 'k \<Rightarrow> 'v \<Rightarrow> ('k \<times> 'v) list" where
  "dict_set [] k v = [(k, v)]"
| "dict_set ((k', v') # d) k v = (if k' = k then (k, v) # d else (k', v') # dict_set d k v)"

definition key_in :: "'k \<Rightarrow> ('k \<times> 'v) list \<Rightarrow> bool" where
  \<comment> \<open>\<^verbatim>\<open>k in d\<close>\<close>
  "key_in k d = (dict_get d k \<noteq> None)"

definition get_default :: "('k \<times> 'v) list \<Rightarrow> 'k \<Rightarrow> 'v \<Rightarrow> 'v" where
  \<comment> \<open>\<^verbatim>\<open>d.get(k, default)\<close>\<close>
  "get_default d k dflt = (case dict_get d k of None \<Rightarrow> dflt | Some v \<Rightarrow> v)"

definition any_key_in :: "'k list \<Rightarrow> ('k \<times> 'v) list \<Rightarrow> bool" where
  \<comment> \<open>\<^verbatim>\<open>any(key in d for key in ks)\<close>\<close>
  "any_key_in ks d = list_ex (\<lambda>key. key_in key d) ks"

fun truthy :: "pyval \<Rightarrow> bool" where
  \<comment> \<open>the truth value Python gives an object in \<^verbatim>\<open>if x:\<close>\<close>
  "truthy PNone = False"
| "truthy (PBool b) = b"
| "truthy (PInt i) = (i \<noteq> 0)"
| "truthy (PStr s) = (s \<noteq> [])"
| "truthy (PList xs) = (xs \<noteq> [])"
| "truthy (PDict d) = (d \<noteq> [])"

fun subscript :: "pyval \<Rightarrow> string \<Rightarrow> error + pyval" where
  \<comment> \<open>\<^verbatim>\<open>x[k]\<close> with a string key: only a dictionary accepts it\<close>
  "subscript (PDict d) k = (case dict_get d k of None \<Rightarrow> Inl (KeyError k) | Some v \<Rightarrow> Inr v)"
| "subscript _ k = Inl TypeError"

fun iterate :: "pyval \<Rightarrow> error + pyval list" where
  \<comment> \<open>the items a \<^verbatim>\<open>for\<close> loop visits: list elements, dictionary keys, characters\<close>
  "iterate (PList xs) = Inr xs"
| "iterate (PDict d) = Inr (map (\<lambda>kv. PStr (fst kv)) d)"
| "iterate (PStr s) = Inr (map (\<lambda>c. PStr [c]) s)"
| "iterate _ = Inl TypeError"

definition double_quote :: string where
  "double_quote = [CHR 0x22]"

section \<open>The load stage: \<^verbatim>\<open>_add_load_parameters\<close>\<close>

text \<open>
  \<^verbatim>\<open>_add_load_parameters(load_task_config, bq_pipeline_input_config)\<close> (lines 175-242)
  writes into the dictionary \<open>load_task_config\<close> and returns either \<^verbatim>\<open>None\<close> or that
  same dictionary. The model returns the dictionary as the function leaves it together
  with the returned value (\<open>None\<close> for \<^verbatim>\<open>None\<close>). An exception is \<open>Inl\<close>.

  Line 192, \<^verbatim>\<open>schema_exists = True\<close>, stands outside the \<^verbatim>\<open>if 'schema' in ...\<close>
  block of line 189: it runs on every call, and the model binds \<open>schema_exists\<close> so.
\<close>

definition load_file_options :: "dict \<Rightarrow> dict \<Rightarrow> bool \<Rightarrow> error + (dict \<times> dict option)" where
  \<comment> \<open>lines 222-242\<close>
  "load_file_options load_task_config bq_pipeline_input_config path_exists =
    (if path_exists then
       (let c1 = dict_set load_task_config ''format''
                   (get_default bq_pipeline_input_config ''format'' (PStr ''csv''));
            c2 = dict_set c1 ''delimiter''
                   (get_default bq_pipeline_input_config ''delimiter'' (PStr '',''));
            c3 = dict_set c2 ''quote''
                   (get_default bq_pipeline_input_config ''quote'' (PStr double_quote));
            c4 = dict_set c3 ''skip''
                   (get_default bq_pipeline_input_config ''skip'' (PInt 0));
            c5 = dict_set c4 ''strict''
                   (get_default bq_pipeline_input_config ''strict'' (PBool True))
        in Inr (c5, Some c5))
     else if any_key_in [''format'', ''delimiter'', ''quote'', ''skip'', ''strict'']
               bq_pipeline_input_config
       then Inl (Exception ''Path is not specified, but at least one file option is.'')
     else Inr (load_task_config, Some load_task_config))"

definition add_load_parameters :: "dict \<Rightarrow> dict \<Rightarrow> error + (dict \<times> dict option)" where
  "add_load_parameters load_task_config bq_pipeline_input_config =
    (let (c1, path_exists) =
           (case dict_get bq_pipeline_input_config ''path'' of
              Some v \<Rightarrow> (dict_set load_task_config ''path'' v, True)
            | None \<Rightarrow> (load_task_config, False));
         (c2, table_exists) =
           (case dict_get bq_pipeline_input_config ''table'' of
              Some v \<Rightarrow> (dict_set c1 ''table'' v, True)
            | None \<Rightarrow> (c1, False));
         c3 =
           (case dict_get bq_pipeline_input_config ''schema'' of
              Some v \<Rightarrow> dict_set c2 ''schema'' v
            | None \<Rightarrow> c2);
         schema_exists = True
     in
       if table_exists then
         if path_exists then
           if schema_exists then
             load_file_options (dict_set c3 ''mode'' (PStr ''create''))
               bq_pipeline_input_config path_exists
           else
             load_file_options (dict_set c3 ''mode'' (PStr ''append''))
               bq_pipeline_input_config path_exists
         else
           if schema_exists then Inl (Exception ''Schema is specified, but path is absent.'')
           else Inr (c3, None)
       else
         if \<not> path_exists then Inr (c3, None)
         else load_file_options c3 bq_pipeline_input_config path_exists)"

section \<open>The execute stage: \<^verbatim>\<open>_add_execute_parameters\<close>\<close>

definition add_execute_parameters :: "dict \<Rightarrow> dict \<Rightarrow> error + (dict \<times> dict option)" where
  \<comment> \<open>lines 245-261\<close>
  "add_execute_parameters execute_task_config bq_pipeline_transformation_config =
    (case dict_get bq_pipeline_transformation_config ''query'' of
       Some q \<Rightarrow>
         (let c1 = dict_set execute_task_config ''query'' q;
              c2 = dict_set c1 ''large''
                     (get_default bq_pipeline_transformation_config ''large'' (PBool True));
              c3 = dict_set c2 ''mode''
                     (get_default bq_pipeline_transformation_config ''mode'' (PStr ''create''))
          in Inr (c3, Some c3))
     | None \<Rightarrow>
         if any_key_in [''large'', ''mode''] bq_pipeline_transformation_config
         then Inl (Exception ''Query is not specified, but at least one query option is.'')
         else Inr (execute_task_config, None))"

section \<open>The extract stage: \<^verbatim>\<open>_add_extract_parameters\<close>\<close>

text \<open>
  \<^verbatim>\<open>_add_extract_parameters(extract_task_config, execute_task_config,
  bq_pipeline_output_config)\<close> (lines 264-299) writes into both task dictionaries. The
  model returns the extract dictionary, the execute dictionary and the returned value.
  The function has no \<^verbatim>\<open>return\<close> after line 299, so it returns \<^verbatim>\<open>None\<close> on every
  path that does not raise.
\<close>

definition add_extract_parameters ::
  "dict \<Rightarrow> dict \<Rightarrow> dict \<Rightarrow> error + (dict \<times> dict \<times> dict option)" where
  "add_extract_parameters extract_task_config execute_task_config bq_pipeline_output_config =
    (case dict_get bq_pipeline_output_config ''table'' of
       None \<Rightarrow> Inr (extract_task_config, execute_task_config, None)
     | Some t \<Rightarrow>
         (let execute1 = dict_set execute_task_config ''table'' t in
          case dict_get bq_pipeline_output_config ''path'' of
            Some p \<Rightarrow>
              (let x1 = dict_set extract_task_config ''path'' p in
               if \<not> key_in ''table'' execute1
               then Inl (Exception ''Path is specified but table is not.'')
               else
                 (let x2 = dict_set x1 ''billing''
                             (get_default bq_pipeline_output_config ''billing'' PNone);
                      x3 = dict_set x2 ''compress''
                             (get_default bq_pipeline_output_config ''compress'' (PBool True));
                      x4 = dict_set x3 ''delimiter''
                             (get_default bq_pipeline_output_config ''delimiter'' (PStr '',''));
                      x5 = dict_set x4 ''header''
                             (get_default bq_pipeline_output_config ''header'' (PBool True));
                      x6 = dict_set x5 ''format''
                             (get_default bq_pipeline_output_config ''format'' (PStr ''csv''))
                  in Inr (x6, execute1, None)))
          | None \<Rightarrow>
              if any_key_in [''compress'', ''delimiter'', ''format'', ''header'']
                   bq_pipeline_output_config
              then Inl (Exception ''Path is not specified, but at least one file option is.'')
              else Inr (extract_task_config, execute1, None)))"

section \<open>Assembling the pipeline: \<^verbatim>\<open>_pipeline_cell\<close>\<close>

text \<open>
  \<open>bq_pipeline_config\<close> is the parsed cell body (parsing belongs to
  \<^verbatim>\<open>google.datalab.utils.commands.parse_config\<close>). Each field of the record is \<open>None\<close>
  when the document has no such key. The three sections are mappings, as the data model
  of the specification has them; the values of \<open>email\<close> and \<open>schedule\<close> are passed
  through.
\<close>

record pipeline_config =
  cfg_email :: "pyval option"
  cfg_schedule :: "pyval option"
  cfg_input :: "dict option"
  cfg_transformation :: "dict option"
  cfg_output :: "dict option"

definition load_task_config_name :: string where
  "load_task_config_name = ''bq_pipeline_load_task''"

definition execute_task_config_name :: string where
  "execute_task_config_name = ''bq_pipeline_execute_task''"

definition extract_task_config_name :: string where
  "extract_task_config_name = ''bq_pipeline_extract_task''"

text \<open>
  Lines 138-165 build the local \<open>pipeline_spec\<close>. \<^verbatim>\<open>_pipeline_cell\<close> calls the three
  builders as statements: what they return is dropped, and the three task dictionaries
  it tests on lines 157-164 are the ones it created on lines 139, 143 and 147, as the
  builders left them. \<^verbatim>\<open>bq_pipeline_config.get('input', None)\<close> is \<^verbatim>\<open>None\<close> for a document
  without \<open>input\<close>, and \<^verbatim>\<open>'path' in None\<close> is a \<^verbatim>\<open>TypeError\<close>; the other four keys are
  read with \<^verbatim>\<open>[...]\<close>, a \<^verbatim>\<open>KeyError\<close> when missing.
\<close>

definition assemble_pipeline_spec :: "pipeline_config \<Rightarrow> error + pyval" where
  "assemble_pipeline_spec bq_pipeline_config =
    (case cfg_input bq_pipeline_config of
       None \<Rightarrow> Inl TypeError
     | Some input_config \<Rightarrow>
    (case add_load_parameters [(''type'', PStr ''pydatalab.bq.load'')] input_config of
       Inl e \<Rightarrow> Inl e
     | Inr (load_task_config, load_returned) \<Rightarrow>
    (case cfg_transformation bq_pipeline_config of
       None \<Rightarrow> Inl (KeyError ''transformation'')
     | Some transformation_config \<Rightarrow>
    (case add_execute_parameters
            [(''type'', PStr ''pydatalab.bq.execute''),
             (''up_stream'', PList [PStr load_task_config_name])] transformation_config of
       Inl e \<Rightarrow> Inl e
     | Inr (execute_task_config1, execute_returned) \<Rightarrow>
    (case cfg_output bq_pipeline_config of
       None \<Rightarrow> Inl (KeyError ''output'')
     | Some output_config \<Rightarrow>
    (case add_extract_parameters
            [(''type'', PStr ''pydatalab.bq.extract''),
             (''up_stream'', PList [PStr execute_task_config_name])]
            execute_task_config1 output_config of
       Inl e \<Rightarrow> Inl e
     | Inr (extract_task_config, execute_task_config, extract_returned) \<Rightarrow>
    (case cfg_email bq_pipeline_config of
       None \<Rightarrow> Inl (KeyError ''email'')
     | Some email_value \<Rightarrow>
    (case cfg_schedule bq_pipeline_config of
       None \<Rightarrow> Inl (KeyError ''schedule'')
     | Some schedule_value \<Rightarrow>
       (let pipeline_spec = [(''email'', email_value), (''schedule'', schedule_value)];
            tasks0 = [];
            tasks1 = (if truthy (PDict load_task_config)
                      then dict_set tasks0 load_task_config_name (PDict load_task_config)
                      else tasks0);
            tasks2 = (if truthy (PDict execute_task_config)
                      then dict_set tasks1 execute_task_config_name (PDict execute_task_config)
                      else tasks1);
            tasks3 = (if truthy (PDict extract_task_config)
                      then dict_set tasks2 extract_task_config_name (PDict extract_task_config)
                      else tasks2)
        in if \<not> truthy (PDict load_task_config) \<and> \<not> truthy (PDict execute_task_config)
                \<and> \<not> truthy (PDict extract_task_config)
           then Inl (Exception ''Pipeline has no tasks to execute.'')
           else Inr (PDict (dict_set pipeline_spec ''tasks'' (PDict tasks3))))))))))))"

text \<open>
  \<^verbatim>\<open>Pipeline(name, pipeline_spec)\<close> is an object of the external class
  \<^verbatim>\<open>google.datalab.contrib.pipeline._pipeline.Pipeline\<close>: a record of its two arguments.
  Its property \<^verbatim>\<open>py\<close>, the rendering of the spec as an Airflow program, is a parameter
  of the model; \<open>None\<close> is a rendering that raises. The registry is the notebook
  environment, a dictionary from names to pipelines, passed in and returned: the first
  component of the result is the registry after the call, on every path.
\<close>

record pipeline =
  pl_name :: pyval
  pl_spec :: pyval

type_synonym registry = "(pyval \<times> pipeline) list"

definition pipeline_cell ::
  "(pipeline \<Rightarrow> string option) \<Rightarrow> dict \<Rightarrow> pipeline_config \<Rightarrow> registry
     \<Rightarrow> registry \<times> (error + pyval)" where
  "pipeline_cell py args bq_pipeline_config env =
    (let name = get_default args ''name'' PNone in
     if name = PNone then (env, Inl (Exception ''Pipeline name was not specified.''))
     else
       case assemble_pipeline_spec bq_pipeline_config of
         Inl e \<Rightarrow> (env, Inl e)
       | Inr pipeline_spec \<Rightarrow>
           (let pipeline = \<lparr>pl_name = name, pl_spec = pipeline_spec\<rparr>;
                env1 = dict_set env name pipeline;
                debug = get_default args ''debug'' PNone
            in if debug = PBool True
               then (case py pipeline of
                       None \<Rightarrow> (env1, Inl RenderError)
                     | Some text \<Rightarrow> (env1, Inr (PStr text)))
               else (env1, Inr PNone)))"

section \<open>Query parameters: \<^verbatim>\<open>_get_query_parameters\<close>\<close>

text \<open>
  Modelled from the spec: the constant \<^verbatim>\<open>query_params_schema\<close> that line 99 hands to
  \<^verbatim>\<open>jsonschema.validate\<close> is defined in another module. The specification gives the
  shape it accepts: a mapping whose \<open>parameters\<close> entry is a sequence of parameters, each
  a mapping with \<open>name\<close> (a string), \<open>type\<close> (a string) and \<open>value\<close> (any value), all
  three required.
\<close>

fun is_string :: "pyval option \<Rightarrow> bool" where
  "is_string (Some (PStr s)) = True"
| "is_string _ = False"

fun valid_parameter :: "pyval \<Rightarrow> bool" where
  "valid_parameter (PDict p) =
     (is_string (dict_get p ''name'') \<and> is_string (dict_get p ''type'')
      \<and> key_in ''value'' p)"
| "valid_parameter _ = False"

fun query_params_schema :: "pyval \<Rightarrow> bool" where
  "query_params_schema (PDict c) =
     (case dict_get c ''parameters'' of
        Some (PList ps) \<Rightarrow> list_all valid_parameter ps
      | _ \<Rightarrow> False)"
| "query_params_schema _ = False"

text \<open>
  The loop of lines 103-113 appends one dictionary per parameter to \<open>parsed_params\<close>.
  The dictionary literal reads \<^verbatim>\<open>param['name']\<close>, \<^verbatim>\<open>param['type']\<close> and
  \<^verbatim>\<open>param['value']\<close> in this order, each a \<^verbatim>\<open>KeyError\<close> or \<^verbatim>\<open>TypeError\<close> when the
  parameter has no such entry.
\<close>

fun parse_params :: "pyval list \<Rightarrow> pyval list \<Rightarrow> error + pyval list" where
  "parse_params [] parsed_params = Inr parsed_params"
| "parse_params (param # rest) parsed_params =
     (case subscript param ''name'' of
        Inl e \<Rightarrow> Inl e
      | Inr n \<Rightarrow>
     (case subscript param ''type'' of
        Inl e \<Rightarrow> Inl e
      | Inr t \<Rightarrow>
     (case subscript param ''value'' of
        Inl e \<Rightarrow> Inl e
      | Inr v \<Rightarrow>
        parse_params rest
          (parsed_params @
             [PDict [(''name'', n),
                     (''parameterType'', PDict [(''type'', t)]),
                     (''parameterValue'', PDict [(''value'', v)])]]))))"

definition get_query_parameters :: "dict \<Rightarrow> pyval \<Rightarrow> error + pyval" where
  \<comment> \<open>lines 93-116; \<open>config\<close> is the parsed cell body of line 92\<close>
  "get_query_parameters args config =
    (case dict_get args ''query'' of
       None \<Rightarrow> Inl (KeyError ''query'')
     | Some sql \<Rightarrow>
         if sql = PNone
         then Inl (Exception ''Cannot extract query parameters in non-query cell'')
         else if truthy config then
           if \<not> query_params_schema config then Inl ValidationError
           else
             (case subscript config ''parameters'' of
                Inl e \<Rightarrow> Inl e
              | Inr parameters \<Rightarrow>
             (case iterate parameters of
                Inl e \<Rightarrow> Inl e
              | Inr params \<Rightarrow>
             (case parse_params params [] of
                Inl e \<Rightarrow> Inl e
              | Inr parsed_params \<Rightarrow> Inr (PList parsed_params))))
         else Inr (PDict []))"

section \<open>Vocabulary of the properties\<close>

text \<open>
  The tasks mapping of a pipeline spec and the names a task lists under \<open>up_stream\<close>;
  both are empty where the entry is missing.
\<close>

definition tasks_of :: "pyval \<Rightarrow> dict" where
  "tasks_of spec =
     (case spec of
        PDict s \<Rightarrow> (case dict_get s ''tasks'' of Some (PDict ts) \<Rightarrow> ts | _ \<Rightarrow> [])
      | _ \<Rightarrow> [])"

definition up_stream_of :: "pyval \<Rightarrow> pyval list" where
  "up_stream_of task =
     (case task of
        PDict t \<Rightarrow> (case dict_get t ''up_stream'' of Some (PList ns) \<Rightarrow> ns | _ \<Rightarrow> [])
      | _ \<Rightarrow> [])"

text \<open>
  The compiled form of a query parameter in the words of the specification: the user
  form \<open>{name, type, value}\<close> becomes \<open>{name, parameterType: {type}, parameterValue:
  {value}}\<close>, with exactly these three fields. It is compared below with what the loop
  of \<^verbatim>\<open>_get_query_parameters\<close> appends.
\<close>

fun compiled_query_parameter :: "pyval \<Rightarrow> pyval option" where
  "compiled_query_parameter (PDict p) =
     (case (dict_get p ''name'', dict_get p ''type'', dict_get p ''value'') of
        (Some n, Some t, Some v) \<Rightarrow>
          Some (PDict [(''name'', n),
                       (''parameterType'', PDict [(''type'', t)]),
                       (''parameterValue'', PDict [(''value'', v)])])
      | _ \<Rightarrow> None)"
| "compiled_query_parameter _ = None"

text \<open>A \<^verbatim>\<open>py\<close> property that raises, for runs where \<open>debug\<close> is off or rendering fails.\<close>

definition py_unavailable :: "pipeline \<Rightarrow> string option" where
  "py_unavailable p = None"

section \<open>Dictionaries: reading after writing\<close>

lemma dict_get_dict_set:
  "dict_get (dict_set d k v) k' = (if k' = k then Some v else dict_get d k')"
  by (induction d) auto

lemma dict_set_nonempty: "dict_set d k v \<noteq> []"
  by (cases d) (auto split: if_splits)

lemma key_in_dict_set: "key_in k' (dict_set d k v) = (k' = k \<or> key_in k' d)"
  by (simp add: key_in_def dict_get_dict_set)

lemmas builder_defs =
  add_load_parameters_def load_file_options_def add_execute_parameters_def
  add_extract_parameters_def key_in_def get_default_def any_key_in_def Let_def

lemmas cell_defs =
  pipeline_cell_def assemble_pipeline_spec_def load_task_config_name_def
  execute_task_config_name_def extract_task_config_name_def

section \<open>What each builder leaves untouched\<close>

text \<open>
  A builder only ever writes the keys of its own stage. A task dictionary that was not
  empty before the call is not empty after it, and the keys \<open>type\<close> and \<open>up_stream\<close>
  set by \<^verbatim>\<open>_pipeline_cell\<close> keep their values.
\<close>

lemma load_file_options_nonempty:
  "load_file_options c cfg pe = Inr (c', r) \<Longrightarrow> c \<noteq> [] \<Longrightarrow> c' \<noteq> []"
  by (auto simp: load_file_options_def Let_def dict_set_nonempty split: if_splits)

lemma load_file_options_frame:
  "load_file_options c cfg pe = Inr (c', r) \<Longrightarrow>
   k \<notin> set [''format'', ''delimiter'', ''quote'', ''skip'', ''strict''] \<Longrightarrow>
   dict_get c' k = dict_get c k"
  by (auto simp: load_file_options_def Let_def dict_get_dict_set split: if_splits)

lemma add_load_parameters_nonempty:
  "add_load_parameters c cfg = Inr (c', r) \<Longrightarrow> c \<noteq> [] \<Longrightarrow> c' \<noteq> []"
  by (auto simp: add_load_parameters_def Let_def dict_set_nonempty
      split: if_splits option.splits dest!: load_file_options_nonempty)

lemma add_load_parameters_frame:
  "add_load_parameters c cfg = Inr (c', r) \<Longrightarrow>
   k \<notin> set [''path'', ''table'', ''schema'', ''mode'',
              ''format'', ''delimiter'', ''quote'', ''skip'', ''strict''] \<Longrightarrow>
   dict_get c' k = dict_get c k"
  by (auto simp: add_load_parameters_def Let_def dict_get_dict_set
      split: if_splits option.splits dest!: load_file_options_frame[where k=k])

lemma add_execute_parameters_nonempty:
  "add_execute_parameters c cfg = Inr (c', r) \<Longrightarrow> c \<noteq> [] \<Longrightarrow> c' \<noteq> []"
  by (auto simp: add_execute_parameters_def Let_def dict_set_nonempty
      split: if_splits option.splits)

lemma add_execute_parameters_frame:
  "add_execute_parameters c cfg = Inr (c', r) \<Longrightarrow>
   k \<notin> set [''query'', ''large'', ''mode''] \<Longrightarrow> dict_get c' k = dict_get c k"
  by (auto simp: add_execute_parameters_def Let_def dict_get_dict_set
      split: if_splits option.splits)

lemma add_extract_parameters_nonempty:
  "add_extract_parameters x c cfg = Inr (x', c', r) \<Longrightarrow>
   (x \<noteq> [] \<longrightarrow> x' \<noteq> []) \<and> (c \<noteq> [] \<longrightarrow> c' \<noteq> [])"
  by (auto simp: add_extract_parameters_def Let_def dict_set_nonempty
      split: if_splits option.splits)

lemma add_extract_parameters_frame:
  "add_extract_parameters x c cfg = Inr (x', c', r) \<Longrightarrow>
   (k \<notin> set [''path'', ''billing'', ''compress'', ''delimiter'', ''header'', ''format'']
      \<longrightarrow> dict_get x' k = dict_get x k) \<and>
   (k \<noteq> ''table'' \<longrightarrow> dict_get c' k = dict_get c k)"
  by (auto simp: add_extract_parameters_def Let_def dict_get_dict_set
      split: if_splits option.splits)

section \<open>The shape of an assembled pipeline spec\<close>

lemma task_names_distinct:
  "load_task_config_name \<noteq> execute_task_config_name"
  "load_task_config_name \<noteq> extract_task_config_name"
  "execute_task_config_name \<noteq> extract_task_config_name"
  by (simp_all add: load_task_config_name_def execute_task_config_name_def
      extract_task_config_name_def)

text \<open>
  The three task dictionaries start with a \<open>type\<close> entry, so the tests of lines 157-164
  always find them non-empty: every spec that is assembled holds all three tasks, and
  the check for an empty pipeline never raises.
\<close>

lemma assemble_pipeline_spec_shape:
  assumes "assemble_pipeline_spec cfg = Inr spec"
  shows "\<exists>em sc l x e.
      spec = PDict [(''email'', em), (''schedule'', sc),
                    (''tasks'', PDict [(load_task_config_name, PDict l),
                                       (execute_task_config_name, PDict x),
                                       (extract_task_config_name, PDict e)])]
      \<and> dict_get l ''up_stream'' = None
      \<and> dict_get x ''type'' = Some (PStr ''pydatalab.bq.execute'')
      \<and> dict_get x ''up_stream'' = Some (PList [PStr load_task_config_name])
      \<and> dict_get e ''up_stream'' = Some (PList [PStr execute_task_config_name])"
proof -
  from assms obtain ic l lr tc x1 xr oc e x er em sc where
    load: "add_load_parameters [(''type'', PStr ''pydatalab.bq.load'')] ic = Inr (l, lr)"
    and exec: "add_execute_parameters
            [(''type'', PStr ''pydatalab.bq.execute''),
             (''up_stream'', PList [PStr load_task_config_name])] tc = Inr (x1, xr)"
    and extr: "add_extract_parameters
            [(''type'', PStr ''pydatalab.bq.extract''),
             (''up_stream'', PList [PStr execute_task_config_name])] x1 oc = Inr (e, x, er)"
    and em: "cfg_email cfg = Some em" and sc: "cfg_schedule cfg = Some sc"
    and ic: "cfg_input cfg = Some ic" and tc: "cfg_transformation cfg = Some tc"
    and oc: "cfg_output cfg = Some oc"
    by (auto simp: assemble_pipeline_spec_def split: option.splits sum.splits)
  have l: "l \<noteq> []" "dict_get l ''up_stream'' = None"
    using add_load_parameters_nonempty[OF load]
      add_load_parameters_frame[OF load, of "''up_stream''"] by simp_all
  have x1: "x1 \<noteq> []" "dict_get x1 ''up_stream'' = Some (PList [PStr load_task_config_name])"
    "dict_get x1 ''type'' = Some (PStr ''pydatalab.bq.execute'')"
    using add_execute_parameters_nonempty[OF exec]
      add_execute_parameters_frame[OF exec, of "''up_stream''"]
      add_execute_parameters_frame[OF exec, of "''type''"] by simp_all
  have ex: "e \<noteq> []" "x \<noteq> []"
    "dict_get e ''up_stream'' = Some (PList [PStr execute_task_config_name])"
    "dict_get x ''up_stream'' = Some (PList [PStr load_task_config_name])"
    "dict_get x ''type'' = Some (PStr ''pydatalab.bq.execute'')"
    using add_extract_parameters_nonempty[OF extr] x1
      add_extract_parameters_frame[OF extr, of "''up_stream''"]
      add_extract_parameters_frame[OF extr, of "''type''"] by simp_all
  have "spec = PDict [(''email'', em), (''schedule'', sc),
                    (''tasks'', PDict [(load_task_config_name, PDict l),
                                       (execute_task_config_name, PDict x),
                                       (extract_task_config_name, PDict e)])]"
    using assms l(1) ex(1,2) task_names_distinct
    by (simp add: assemble_pipeline_spec_def load exec extr em sc ic tc oc)
  with l ex show ?thesis by blast
qed

section \<open>The extract stage\<close>

text \<open>
  C8. For every output configuration without the key \<open>table\<close>,
  \<^verbatim>\<open>_add_extract_parameters\<close> returns \<^verbatim>\<open>None\<close> and raises nothing, whichever other keys
  (a path, file options) the configuration holds, and it leaves the execute task
  configuration it was given, and the extract task configuration, as they were.
\<close>

theorem extract_without_table_returns_none:
  assumes "\<not> key_in ''table'' bq_pipeline_output_config"
  shows "add_extract_parameters extract_task_config execute_task_config
           bq_pipeline_output_config
         = Inr (extract_task_config, execute_task_config, None)"
  using assms by (simp add: add_extract_parameters_def key_in_def)

theorem extract_without_table_returns_none_witness:
  "\<not> key_in ''table'' [(''path'', PStr ''gs://y''), (''format'', PStr ''json'')] \<and>
   add_extract_parameters
     [(''type'', PStr ''pydatalab.bq.extract'')]
     [(''type'', PStr ''pydatalab.bq.execute''), (''query'', PStr ''SELECT 1'')]
     [(''path'', PStr ''gs://y''), (''format'', PStr ''json'')]
   = Inr ([(''type'', PStr ''pydatalab.bq.extract'')],
          [(''type'', PStr ''pydatalab.bq.execute''), (''query'', PStr ''SELECT 1'')],
          None)"
proof -
  have h: "\<not> key_in ''table'' [(''path'', PStr ''gs://y''), (''format'', PStr ''json'')]"
    by (simp add: key_in_def)
  show ?thesis
    using h extract_without_table_returns_none [OF h] by simp
qed

text \<open>
  C10. When \<^verbatim>\<open>_add_extract_parameters\<close> reaches the branch for a present \<open>path\<close>, line
  269 has just written \<open>table\<close> into the execute task configuration, so the test of
  line 276 finds the key: the error "Path is specified but table is not." is raised for
  no input.
\<close>

theorem extract_path_without_table_error_unreachable:
  "key_in ''table'' (dict_set execute_task_config ''table'' t) \<and>
   add_extract_parameters extract_task_config execute_task_config bq_pipeline_output_config
     \<noteq> Inl (Exception ''Path is specified but table is not.'')"
  by (simp add: add_extract_parameters_def Let_def key_in_dict_set split: option.splits)

section \<open>The load stage\<close>

text \<open>
  With \<open>schema_exists\<close> always true, a configuration with \<open>table\<close> and \<open>path\<close> gets
  the mode \<open>create\<close> whether or not it has a schema, and a configuration with \<open>table\<close>
  and no \<open>path\<close> always raises.
\<close>

lemma load_mode_always_create:
  assumes "key_in ''table'' cfg" and "key_in ''path'' cfg"
  shows "\<exists>c. add_load_parameters l cfg = Inr (c, Some c)
             \<and> dict_get c ''mode'' = Some (PStr ''create'')"
  using assms
  by (auto simp: add_load_parameters_def load_file_options_def key_in_def Let_def
      dict_get_dict_set)

lemma load_table_without_path_raises:
  assumes "key_in ''table'' cfg" and "\<not> key_in ''path'' cfg"
  shows "add_load_parameters l cfg = Inl (Exception ''Schema is specified, but path is absent.'')"
  using assms
  by (auto simp: add_load_parameters_def key_in_def Let_def)

lemma load_without_table_and_path_returns_none:
  assumes "\<not> key_in ''table'' cfg" and "\<not> key_in ''path'' cfg"
  shows "\<exists>c. add_load_parameters l cfg = Inr (c, None)"
  using assms
  by (auto simp: add_load_parameters_def key_in_def Let_def split: option.splits)

text \<open>
  Every path that reaches line 222 has a \<open>path\<close>: the two paths without one return on
  lines 213 and 220 (or raise on line 208). The \<^verbatim>\<open>elif\<close> of line 238 is never taken.
\<close>

lemma load_file_option_error_unreachable:
  "add_load_parameters l cfg
     \<noteq> Inl (Exception ''Path is not specified, but at least one file option is.'')"
  by (auto simp: add_load_parameters_def load_file_options_def Let_def
      split: option.splits)

text \<open>
  C2. The specification gives a load configuration with \<open>table\<close> and \<open>path\<close> the mode
  \<open>create\<close> when it has a schema and \<open>append\<close> when it has none. On
  \<open>{path: gs://x, table: t}\<close>, which has no schema, the function writes the mode
  \<open>create\<close>.
\<close>

theorem load_mode_create_without_schema:
  "add_load_parameters [(''type'', PStr ''pydatalab.bq.load'')]
     [(''path'', PStr ''gs://x''), (''table'', PStr ''t'')]
   = Inr ([(''type'', PStr ''pydatalab.bq.load''), (''path'', PStr ''gs://x''),
           (''table'', PStr ''t''), (''mode'', PStr ''create''),
           (''format'', PStr ''csv''), (''delimiter'', PStr '',''),
           (''quote'', PStr double_quote), (''skip'', PInt 0), (''strict'', PBool True)],
          Some [(''type'', PStr ''pydatalab.bq.load''), (''path'', PStr ''gs://x''),
           (''table'', PStr ''t''), (''mode'', PStr ''create''),
           (''format'', PStr ''csv''), (''delimiter'', PStr '',''),
           (''quote'', PStr double_quote), (''skip'', PInt 0), (''strict'', PBool True)])"
  by (simp add: builder_defs)

text \<open>
  C3. The specification has a load configuration with \<open>table\<close>, no \<open>path\<close> and no
  \<open>schema\<close> return \<^verbatim>\<open>None\<close> without an error. On \<open>{table: t}\<close> the function raises
  "Schema is specified, but path is absent.".
\<close>

theorem load_table_only_raises:
  "add_load_parameters [(''type'', PStr ''pydatalab.bq.load'')] [(''table'', PStr ''t'')]
   = Inl (Exception ''Schema is specified, but path is absent.'')"
  by (simp add: builder_defs)

text \<open>
  C6. The specification has a load configuration that needs no load stage but holds a
  file option (\<open>format\<close>, \<open>delimiter\<close>, \<open>quote\<close>, \<open>skip\<close>, \<open>strict\<close>) fail. On
  \<open>{format: json}\<close> the function returns \<^verbatim>\<open>None\<close> on line 220 and raises nothing.
\<close>

theorem load_file_option_without_path_returns_none:
  "add_load_parameters [(''type'', PStr ''pydatalab.bq.load'')] [(''format'', PStr ''json'')]
   = Inr ([(''type'', PStr ''pydatalab.bq.load'')], None)"
  by (simp add: builder_defs)

section \<open>The assembled pipeline\<close>

text \<open>
  The check of line 164 for a pipeline without tasks raises for no document: the three
  dictionaries it tests are never empty.
\<close>

lemma no_tasks_error_unreachable:
  "assemble_pipeline_spec cfg \<noteq> Inl (Exception ''Pipeline has no tasks to execute.'')"
proof
  assume a: "assemble_pipeline_spec cfg = Inl (Exception ''Pipeline has no tasks to execute.'')"
  show False
  proof (cases "cfg_input cfg")
    case None
    with a show False by (simp add: assemble_pipeline_spec_def)
  next
    case (Some ic)
    show False
    proof (cases "add_load_parameters [(''type'', PStr ''pydatalab.bq.load'')] ic")
      case (Inl e)
      have "e \<noteq> Exception ''Pipeline has no tasks to execute.''"
        using Inl
        by (auto simp: add_load_parameters_def load_file_options_def Let_def
            split: option.splits if_splits)
      with a Some Inl show False by (simp add: assemble_pipeline_spec_def)
    next
      case (Inr lr)
      obtain l r where lr: "lr = (l, r)" by (cases lr)
      have "l \<noteq> []" using add_load_parameters_nonempty[OF Inr[unfolded lr]] by simp
      with a Some Inr lr show False
        by (auto simp: assemble_pipeline_spec_def add_execute_parameters_def
            add_extract_parameters_def Let_def
            split: option.splits sum.splits if_splits)
    qed
  qed
qed

text \<open>
  C4. In every assembled pipeline spec, the execute task lists the load task under
  \<open>up_stream\<close> only if the tasks mapping holds a load task, the extract task lists the
  execute task only if the mapping holds an execute task, and every name under any
  task's \<open>up_stream\<close> is a key of the same tasks mapping.
\<close>

theorem assembled_up_stream_closed:
  assumes "assemble_pipeline_spec cfg = Inr spec"
  shows "(\<forall>t. dict_get (tasks_of spec) execute_task_config_name = Some t
            \<and> PStr load_task_config_name \<in> set (up_stream_of t)
            \<longrightarrow> key_in load_task_config_name (tasks_of spec))
       \<and> (\<forall>t. dict_get (tasks_of spec) extract_task_config_name = Some t
            \<and> PStr execute_task_config_name \<in> set (up_stream_of t)
            \<longrightarrow> key_in execute_task_config_name (tasks_of spec))
       \<and> (\<forall>(n, t) \<in> set (tasks_of spec). \<forall>u \<in> set (up_stream_of t).
            \<exists>m. u = PStr m \<and> key_in m (tasks_of spec))"
proof -
  from assemble_pipeline_spec_shape[OF assms] obtain em sc l x e where
    shape: "spec = PDict [(''email'', em), (''schedule'', sc),
                    (''tasks'', PDict [(load_task_config_name, PDict l),
                                       (execute_task_config_name, PDict x),
                                       (extract_task_config_name, PDict e)])]"
    and l: "dict_get l ''up_stream'' = None"
    and x: "dict_get x ''up_stream'' = Some (PList [PStr load_task_config_name])"
    and e: "dict_get e ''up_stream'' = Some (PList [PStr execute_task_config_name])"
    by blast
  have tasks: "tasks_of spec = [(load_task_config_name, PDict l),
                                (execute_task_config_name, PDict x),
                                (extract_task_config_name, PDict e)]"
    by (simp add: shape tasks_of_def)
  have ups: "up_stream_of (PDict l) = []"
    "up_stream_of (PDict x) = [PStr load_task_config_name]"
    "up_stream_of (PDict e) = [PStr execute_task_config_name]"
    by (simp_all add: up_stream_of_def l x e)
  have present: "key_in load_task_config_name (tasks_of spec)"
    "key_in execute_task_config_name (tasks_of spec)"
    by (simp_all add: tasks key_in_def)
  show ?thesis
    using present by (simp add: tasks ups)
qed

theorem assembled_up_stream_closed_witness:
  "\<exists>spec. assemble_pipeline_spec
     \<lparr>cfg_email = Some (PStr ''a@b.c''),
      cfg_schedule = Some (PDict [(''interval'', PStr ''@daily'')]),
      cfg_input = Some [(''path'', PStr ''gs://x''), (''table'', PStr ''t'')],
      cfg_transformation = Some [(''query'', PStr ''SELECT 1'')],
      cfg_output = Some [(''table'', PStr ''t2''), (''path'', PStr ''gs://y'')]\<rparr> = Inr spec
    \<and> (\<forall>t. dict_get (tasks_of spec) execute_task_config_name = Some t
            \<and> PStr load_task_config_name \<in> set (up_stream_of t)
            \<longrightarrow> key_in load_task_config_name (tasks_of spec))
       \<and> (\<forall>t. dict_get (tasks_of spec) extract_task_config_name = Some t
            \<and> PStr execute_task_config_name \<in> set (up_stream_of t)
            \<longrightarrow> key_in execute_task_config_name (tasks_of spec))
       \<and> (\<forall>(n, t) \<in> set (tasks_of spec). \<forall>u \<in> set (up_stream_of t).
            \<exists>m. u = PStr m \<and> key_in m (tasks_of spec))"
proof -
  let ?cfg = "\<lparr>cfg_email = Some (PStr ''a@b.c''),
      cfg_schedule = Some (PDict [(''interval'', PStr ''@daily'')]),
      cfg_input = Some [(''path'', PStr ''gs://x''), (''table'', PStr ''t'')],
      cfg_transformation = Some [(''query'', PStr ''SELECT 1'')],
      cfg_output = Some [(''table'', PStr ''t2''), (''path'', PStr ''gs://y'')]\<rparr>"
  have "\<exists>spec. assemble_pipeline_spec ?cfg = Inr spec"
    by (simp add: cell_defs builder_defs)
  then obtain spec where h: "assemble_pipeline_spec ?cfg = Inr spec" ..
  show ?thesis
    using h assembled_up_stream_closed [OF h] by blast
qed

text \<open>
  C1. The specification has the document \<open>{input: {table: t}, transformation: {query:
  SELECT 1}, output: {}}\<close>, compiled with a name, an email and a schedule, yield a
  pipeline spec with the execute task alone, its \<open>up_stream\<close> empty: the table is
  already loaded, so no load stage is needed (the comment of lines 211-213). On this
  document \<^verbatim>\<open>_pipeline_cell\<close> raises "Schema is specified, but path is absent."
  from line 208 and registers nothing, since line 192 makes \<open>schema_exists\<close> true
  though the input has no schema.
\<close>

theorem round_trip_document_raises:
  "pipeline_cell py_unavailable [(''name'', PStr ''p''), (''debug'', PBool False)]
     \<lparr>cfg_email = Some (PStr ''a@b.c''),
      cfg_schedule = Some (PDict [(''interval'', PStr ''@daily'')]),
      cfg_input = Some [(''table'', PStr ''t'')],
      cfg_transformation = Some [(''query'', PStr ''SELECT 1'')],
      cfg_output = Some []\<rparr> []
   = ([], Inl (Exception ''Schema is specified, but path is absent.''))"
  by (simp add: cell_defs builder_defs)

text \<open>
  Whenever \<^verbatim>\<open>_pipeline_cell\<close> returns normally, the pipeline it has registered under
  the given name has an execute task of type \<open>pydatalab.bq.execute\<close> whose
  \<open>up_stream\<close> is the list of the one name \<open>bq_pipeline_load_task\<close>: line 143 creates
  the execute task with this edge and no line removes it.
\<close>

lemma compiled_execute_task_has_load_up_stream:
  assumes "snd (pipeline_cell py args cfg env) = Inr r"
  shows "\<exists>spec x.
      dict_get (fst (pipeline_cell py args cfg env)) (get_default args ''name'' PNone)
        = Some \<lparr>pl_name = get_default args ''name'' PNone, pl_spec = spec\<rparr>
      \<and> dict_get (tasks_of spec) execute_task_config_name = Some (PDict x)
      \<and> dict_get x ''type'' = Some (PStr ''pydatalab.bq.execute'')
      \<and> dict_get x ''up_stream'' = Some (PList [PStr load_task_config_name])"
proof -
  from assms obtain spec where spec: "assemble_pipeline_spec cfg = Inr spec"
    and name: "get_default args ''name'' PNone \<noteq> PNone"
    by (auto simp: pipeline_cell_def Let_def split: if_splits sum.splits)
  have reg: "dict_get (fst (pipeline_cell py args cfg env)) (get_default args ''name'' PNone)
        = Some \<lparr>pl_name = get_default args ''name'' PNone, pl_spec = spec\<rparr>"
    using spec name
    by (simp add: pipeline_cell_def Let_def dict_get_dict_set split: option.splits)
  from assemble_pipeline_spec_shape[OF spec] obtain em sc l x e where
    shape: "spec = PDict [(''email'', em), (''schedule'', sc),
                    (''tasks'', PDict [(load_task_config_name, PDict l),
                                       (execute_task_config_name, PDict x),
                                       (extract_task_config_name, PDict e)])]"
    and x: "dict_get x ''type'' = Some (PStr ''pydatalab.bq.execute'')"
      "dict_get x ''up_stream'' = Some (PList [PStr load_task_config_name])"
    by blast
  have "dict_get (tasks_of spec) execute_task_config_name = Some (PDict x)"
    using task_names_distinct by (simp add: shape tasks_of_def)
  with reg x show ?thesis by blast
qed

text \<open>
  C5. The specification has the compile fail with "pipeline has no tasks to execute"
  when none of the three sections holds a decisive key. On the document with the three
  sections empty, \<^verbatim>\<open>_pipeline_cell\<close> returns normally and registers a pipeline of three
  tasks.
\<close>

theorem empty_document_registers_three_tasks:
  "pipeline_cell py_unavailable [(''name'', PStr ''p''), (''debug'', PBool False)]
     \<lparr>cfg_email = Some (PStr ''a@b.c''),
      cfg_schedule = Some (PDict [(''interval'', PStr ''@daily'')]),
      cfg_input = Some [], cfg_transformation = Some [], cfg_output = Some []\<rparr> []
   = ([(PStr ''p'',
        \<lparr>pl_name = PStr ''p'',
         pl_spec = PDict
           [(''email'', PStr ''a@b.c''),
            (''schedule'', PDict [(''interval'', PStr ''@daily'')]),
            (''tasks'', PDict
              [(''bq_pipeline_load_task'', PDict [(''type'', PStr ''pydatalab.bq.load'')]),
               (''bq_pipeline_execute_task'',
                  PDict [(''type'', PStr ''pydatalab.bq.execute''),
                         (''up_stream'', PList [PStr ''bq_pipeline_load_task''])]),
               (''bq_pipeline_extract_task'',
                  PDict [(''type'', PStr ''pydatalab.bq.extract''),
                         (''up_stream'', PList [PStr ''bq_pipeline_execute_task''])])])]\<rparr>)],
      Inr PNone)"
  by (simp add: cell_defs builder_defs)

text \<open>
  C9. A call of \<^verbatim>\<open>_pipeline_cell\<close> that ends in an error of the compiler (a
  configuration error, or a missing key or section) leaves the registry as it was: the
  only write to the registry is line 168, after the spec is assembled in full. The one
  error that can follow the write comes from the external \<^verbatim>\<open>py\<close> property in debug
  mode.
\<close>

theorem failed_compile_leaves_registry:
  assumes "snd (pipeline_cell py args cfg env) = Inl e" and "e \<noteq> RenderError"
  shows "fst (pipeline_cell py args cfg env) = env"
  using assms
  by (auto simp: pipeline_cell_def Let_def split: if_splits sum.splits option.splits)

theorem failed_compile_leaves_registry_witness:
  "snd (pipeline_cell py_unavailable [(''name'', PStr ''p''), (''debug'', PBool False)]
     \<lparr>cfg_email = Some (PStr ''a@b.c''),
      cfg_schedule = Some (PDict [(''interval'', PStr ''@daily'')]),
      cfg_input = Some [(''format'', PStr ''csv'')],
      cfg_transformation = Some [(''mode'', PStr ''append'')],
      cfg_output = Some []\<rparr>
     [(PStr ''p'', \<lparr>pl_name = PStr ''p'', pl_spec = PDict []\<rparr>)])
   = Inl (Exception ''Query is not specified, but at least one query option is.'') \<and>
   Exception ''Query is not specified, but at least one query option is.'' \<noteq> RenderError \<and>
   fst (pipeline_cell py_unavailable [(''name'', PStr ''p''), (''debug'', PBool False)]
     \<lparr>cfg_email = Some (PStr ''a@b.c''),
      cfg_schedule = Some (PDict [(''interval'', PStr ''@daily'')]),
      cfg_input = Some [(''format'', PStr ''csv'')],
      cfg_transformation = Some [(''mode'', PStr ''append'')],
      cfg_output = Some []\<rparr>
     [(PStr ''p'', \<lparr>pl_name = PStr ''p'', pl_spec = PDict []\<rparr>)])
   = [(PStr ''p'', \<lparr>pl_name = PStr ''p'', pl_spec = PDict []\<rparr>)]"
proof -
  let ?args = "[(''name'', PStr ''p''), (''debug'', PBool False)]"
  let ?cfg = "\<lparr>cfg_email = Some (PStr ''a@b.c''),
      cfg_schedule = Some (PDict [(''interval'', PStr ''@daily'')]),
      cfg_input = Some [(''format'', PStr ''csv'')],
      cfg_transformation = Some [(''mode'', PStr ''append'')],
      cfg_output = Some []\<rparr>"
  let ?env = "[(PStr ''p'', \<lparr>pl_name = PStr ''p'', pl_spec = PDict []\<rparr>)]"
  have h: "snd (pipeline_cell py_unavailable ?args ?cfg ?env)
           = Inl (Exception ''Query is not specified, but at least one query option is.'')"
    by (simp add: cell_defs builder_defs)
  have d: "Exception ''Query is not specified, but at least one query option is.''
           \<noteq> RenderError"
    by simp
  show ?thesis
    using h d failed_compile_leaves_registry [OF h d] by simp
qed

section \<open>Query parameters\<close>

lemma is_string_Some: "is_string x \<Longrightarrow> \<exists>s. x = Some (PStr s)"
  by (cases x rule: is_string.cases) simp_all

lemma valid_parameter_entries:
  assumes "valid_parameter a"
  shows "\<exists>p n t v. a = PDict p \<and> dict_get p ''name'' = Some n
          \<and> dict_get p ''type'' = Some t \<and> dict_get p ''value'' = Some v"
proof (cases a)
  case (PDict p)
  with assms have "is_string (dict_get p ''name'')" "is_string (dict_get p ''type'')"
    "dict_get p ''value'' \<noteq> None"
    by (simp_all add: key_in_def)
  then show ?thesis using PDict by (blast dest: is_string_Some)
qed (use assms in simp_all)

lemma query_params_schema_parameters:
  assumes "query_params_schema config"
  shows "\<exists>c ps. config = PDict c \<and> dict_get c ''parameters'' = Some (PList ps)
          \<and> list_all valid_parameter ps"
proof (cases config)
  case (PDict c)
  show ?thesis
  proof (cases "dict_get c ''parameters''")
    case None
    with assms PDict show ?thesis by simp
  next
    case (Some v)
    with assms PDict show ?thesis by (cases v) simp_all
  qed
qed (use assms in simp_all)

text \<open>One turn of the loop on a valid parameter appends its compiled form.\<close>

lemma parse_params_step:
  assumes "valid_parameter a"
  shows "\<exists>c. compiled_query_parameter a = Some c
           \<and> parse_params (a # rest) acc = parse_params rest (acc @ [c])"
proof -
  from valid_parameter_entries[OF assms] obtain p n t v where
    "a = PDict p" "dict_get p ''name'' = Some n" "dict_get p ''type'' = Some t"
    "dict_get p ''value'' = Some v"
    by blast
  then show ?thesis by simp
qed

lemma parse_params_valid:
  "list_all valid_parameter ps \<Longrightarrow>
   \<exists>out. parse_params ps acc = Inr (acc @ out)
        \<and> map compiled_query_parameter ps = map Some out"
proof (induction ps arbitrary: acc)
  case Nil
  then show ?case by simp
next
  case (Cons a ps)
  from Cons.prems have va: "valid_parameter a" and vps: "list_all valid_parameter ps"
    by simp_all
  from parse_params_step[OF va, of ps acc] obtain c where
    c: "compiled_query_parameter a = Some c"
    and step: "parse_params (a # ps) acc = parse_params ps (acc @ [c])"
    by blast
  from Cons.IH[OF vps, of "acc @ [c]"] obtain out where
    out: "parse_params ps (acc @ [c]) = Inr ((acc @ [c]) @ out)"
    and m: "map compiled_query_parameter ps = map Some out"
    by blast
  have "parse_params (a # ps) acc = Inr (acc @ (c # out))"
    using step out by simp
  moreover have "map compiled_query_parameter (a # ps) = map Some (c # out)"
    using c m by simp
  ultimately show ?case by blast
qed

text \<open>
  C7. For a cell with a query and a parameters document that the schema check accepts,
  \<^verbatim>\<open>_get_query_parameters\<close> returns a list with one compiled parameter per input
  parameter, in the order of the input, each made of exactly the three fields \<open>name\<close>
  (the input name), \<open>parameterType.type\<close> (the input type) and
  \<open>parameterValue.value\<close> (the input value).
\<close>

theorem query_parameters_compiled_in_order:
  assumes "dict_get args ''query'' = Some sql" and "sql \<noteq> PNone"
    and "query_params_schema config"
  shows "\<exists>ps out. subscript config ''parameters'' = Inr (PList ps)
      \<and> get_query_parameters args config = Inr (PList out)
      \<and> length out = length ps
      \<and> (\<forall>i<length ps. compiled_query_parameter (ps ! i) = Some (out ! i))"
proof -
  from query_params_schema_parameters[OF assms(3)] obtain c ps where
    c: "config = PDict c" and ps: "dict_get c ''parameters'' = Some (PList ps)"
    and valid: "list_all valid_parameter ps"
    by blast
  from ps have ne: "c \<noteq> []" by auto
  from parse_params_valid[OF valid, of "[]"] obtain out where
    out: "parse_params ps [] = Inr out"
    and m: "map compiled_query_parameter ps = map Some out"
    by auto
  have len: "length out = length ps"
    using m by (metis length_map)
  have each: "\<forall>i<length ps. compiled_query_parameter (ps ! i) = Some (out ! i)"
  proof (intro allI impI)
    fix i assume i: "i < length ps"
    then have "map compiled_query_parameter ps ! i = map Some out ! i"
      using m by simp
    with i len show "compiled_query_parameter (ps ! i) = Some (out ! i)"
      by simp
  qed
  have run: "get_query_parameters args config = Inr (PList out)"
    using assms(1,2) assms(3)[unfolded c] ne
    by (simp add: get_query_parameters_def c ps out del: query_params_schema.simps)
  have "subscript config ''parameters'' = Inr (PList ps)"
    by (simp add: c ps)
  with run len each show ?thesis by blast
qed

theorem query_parameters_compiled_in_order_witness:
  "dict_get [(''query'', PStr ''q'')] ''query'' = Some (PStr ''q'') \<and> PStr ''q'' \<noteq> PNone \<and>
   query_params_schema
     (PDict [(''parameters'',
        PList [PDict [(''name'', PStr ''a''), (''type'', PStr ''INT64''), (''value'', PInt 3)],
               PDict [(''value'', PStr ''x''), (''name'', PStr ''b''),
                      (''type'', PStr ''STRING'')]])]) \<and>
   get_query_parameters [(''query'', PStr ''q'')]
     (PDict [(''parameters'',
        PList [PDict [(''name'', PStr ''a''), (''type'', PStr ''INT64''), (''value'', PInt 3)],
               PDict [(''value'', PStr ''x''), (''name'', PStr ''b''),
                      (''type'', PStr ''STRING'')]])])
   = Inr (PList
       [PDict [(''name'', PStr ''a''), (''parameterType'', PDict [(''type'', PStr ''INT64'')]),
               (''parameterValue'', PDict [(''value'', PInt 3)])],
        PDict [(''name'', PStr ''b''), (''parameterType'', PDict [(''type'', PStr ''STRING'')]),
               (''parameterValue'', PDict [(''value'', PStr ''x'')])]])"
proof -
  let ?args = "[(''query'', PStr ''q'')]"
  let ?ps = "[PDict [(''name'', PStr ''a''), (''type'', PStr ''INT64''), (''value'', PInt 3)],
               PDict [(''value'', PStr ''x''), (''name'', PStr ''b''),
                      (''type'', PStr ''STRING'')]]"
  let ?config = "PDict [(''parameters'', PList ?ps)]"
  let ?a = "PDict [(''name'', PStr ''a''), (''parameterType'', PDict [(''type'', PStr ''INT64'')]),
               (''parameterValue'', PDict [(''value'', PInt 3)])]"
  let ?b = "PDict [(''name'', PStr ''b''), (''parameterType'', PDict [(''type'', PStr ''STRING'')]),
               (''parameterValue'', PDict [(''value'', PStr ''x'')])]"
  have h1: "dict_get ?args ''query'' = Some (PStr ''q'')" by simp
  have h2: "PStr ''q'' \<noteq> PNone" by simp
  have h3: "query_params_schema ?config" by (simp add: key_in_def)
  from query_parameters_compiled_in_order [OF h1 h2 h3] obtain ps out where
    ps: "subscript ?config ''parameters'' = Inr (PList ps)"
    and run: "get_query_parameters ?args ?config = Inr (PList out)"
    and len: "length out = length ps"
    and each: "\<forall>i<length ps. compiled_query_parameter (ps ! i) = Some (out ! i)"
    by blast
  from ps have ps_eq: "ps = ?ps" by simp
  from len ps_eq have l2: "length out = 2" by simp
  from each ps_eq have "compiled_query_parameter (?ps ! 0) = Some (out ! 0)"
    "compiled_query_parameter (?ps ! 1) = Some (out ! 1)" by auto
  then have o: "out ! 0 = ?a" "out ! 1 = ?b"
    by simp_all
  from l2 obtain a b where "out = [a, b]"
    by (metis (no_types, opaque_lifting) One_nat_def Suc_1 length_0_conv length_Suc_conv)
  with o have "out = [?a, ?b]" by simp
  with run h1 h2 h3 show ?thesis by simp
qed

end
